theory Spec2Isabelle
  imports Main "HOL-Library.Word"
begin

unbundle bit_operations_syntax

section \<open>The htslib wrapper of vcfpy: \<^verbatim>\<open>src/vcfpy/cyhtslib/cyhtslib.pyx\<close>\<close>

text \<open>
  A shallow embedding of the Cython module: the classes \<^verbatim>\<open>VCFFile\<close>, \<^verbatim>\<open>Record\<close> and
  \<^verbatim>\<open>HeaderLineFactory\<close> with their methods. Every \<^verbatim>\<open>raise\<close> and failed
  \<^verbatim>\<open>assert\<close> of the source is the \<open>Inl\<close> branch of a result; a read outside a C array,
  a dereferenced \<^verbatim>\<open>NULL\<close> and a C field accessed through \<^verbatim>\<open>None\<close>, none of which the
  source checks, are error values too.

  Byte strings are \<open>string\<close> (a list of 8-bit characters). Text is \<open>string\<close> as well and
  the model covers ASCII text: there \<^verbatim>\<open>bytes.decode\<close> and \<^verbatim>\<open>str.encode\<close> return their
  argument, for every encoding the locale may prefer. On a byte outside ASCII the source
  depends on the locale; the model reports \<open>UnicodeDecodeError\<close> / \<open>UnicodeEncodeError\<close>
  there and no theorem below speaks about that branch. Byte strings and text are two
  types of Python all the same: where the source brings one of each together, the model
  says which is which.
\<close>

subsection \<open>Results and Python builtins\<close>

datatype py_error =
    TypeError
  | AssertionError
  | KeyError
  | UnicodeDecodeError
  | UnicodeEncodeError
  | StopIteration
  | OutOfBounds
  | NullPointer
  | NoneField

type_synonym 'a result = "py_error + 'a"

definition bind_r :: "'a result \<Rightarrow> ('a \<Rightarrow> 'b result) \<Rightarrow> 'b result" where
  "bind_r m f = (case m of Inl e \<Rightarrow> Inl e | Inr x \<Rightarrow> f x)"

text \<open>A comprehension evaluates its elements left to right; the first raise ends it.\<close>

fun collect :: "'a result list \<Rightarrow> 'a list result" where
  "collect [] = Inr []"
| "collect (m # ms) =
     (case m of
        Inl e \<Rightarrow> Inl e
      | Inr x \<Rightarrow> (case collect ms of Inl e \<Rightarrow> Inl e | Inr xs \<Rightarrow> Inr (x # xs)))"

definition ascii :: "string \<Rightarrow> bool" where
  "ascii s = list_all (\<lambda>c. \<not> digit7 c) s"

definition decode :: "string \<Rightarrow> string result" where
  "decode s = (if ascii s then Inr s else Inl UnicodeDecodeError)"

definition encode :: "string \<Rightarrow> string result" where
  "encode s = (if ascii s then Inr s else Inl UnicodeEncodeError)"

text \<open>\<^verbatim>\<open>range(lo, hi)\<close> for \<open>0 \<le> lo\<close>, the only use the source makes of it.\<close>

definition py_range :: "int \<Rightarrow> int \<Rightarrow> int list" where
  "py_range lo hi = map int [nat lo ..< nat hi]"

text \<open>\<^verbatim>\<open>sep.join(xs)\<close>.\<close>

fun py_join :: "string \<Rightarrow> string list \<Rightarrow> string" where
  "py_join sep [] = []"
| "py_join sep [x] = x"
| "py_join sep (x # y # ys) = x @ sep @ py_join sep (y # ys)"

text \<open>\<^verbatim>\<open>s.split(sep)\<close> for a separator of one character: never the empty list.\<close>

fun py_split :: "char \<Rightarrow> string \<Rightarrow> string list" where
  "py_split sep [] = [[]]"
| "py_split sep (c # cs) =
     (if c = sep then [] # py_split sep cs
      else (c # hd (py_split sep cs)) # tl (py_split sep cs))"

text \<open>\<^verbatim>\<open>a[i]\<close> on a C array of known extent.\<close>

definition c_index :: "'a list \<Rightarrow> int \<Rightarrow> 'a result" where
  "c_index xs i = (if 0 \<le> i \<and> i < int (length xs) then Inr (xs ! nat i) else Inl OutOfBounds)"

subsection \<open>The C structures of htslib, as far as the module reads them\<close>

text \<open>
  \<^verbatim>\<open>bcf_dec_t\<close>: the decoded part of a record, filled by \<^verbatim>\<open>bcf_unpack\<close>.
\<close>

record bcf_dec_t =
  d_id :: string
  d_allele :: "string list"
  d_flt :: "int list"
  d_n_flt :: int
  d_info :: "string list"
  d_fmt :: "string list"

text \<open>
  \<^verbatim>\<open>bcf1_t\<close>: the fixed fields, the two packed blocks (\<open>shared\<close> with the identifier, the
  alleles, the filters and the INFO fields; \<open>indiv\<close> with the per-sample fields), the mask
  of the groups already unpacked, and the decoded part. The packed blocks are kept as the
  values their bytes encode. \<open>b_qual\<close> is the bit pattern of the C \<^verbatim>\<open>float\<close>. The
  integer fields are \<open>int\<close>: their C types are declared outside the module, and the
  offsets and counts of a BCF record stay far from the bounds of any of them.
\<close>

record bcf1_t =
  b_rid :: int
  b_pos :: int
  b_qual :: "32 word"
  b_n_allele :: int
  b_n_sample :: int
  b_shared_id :: string
  b_shared_allele :: "string list"
  b_shared_flt :: "int list"
  b_shared_info :: "string list"
  b_indiv :: "string list"
  b_unpacked :: int
  b_d :: bcf_dec_t

text \<open>
  \<^verbatim>\<open>bcf_hrec_t\<close>: one raw header entry. \<open>hrec_type\<close> is one of htslib's
  \<^verbatim>\<open>BCF_HL_*\<close> tags; \<open>hrec_keys\<close> and \<open>hrec_vals\<close> are the parallel arrays of a
  structured line, read up to \<open>hrec_nkeys\<close>.
\<close>

datatype hl_type = BCF_HL_FLT | BCF_HL_INFO | BCF_HL_FMT | BCF_HL_CTG | BCF_HL_STR | BCF_HL_GEN

record bcf_hrec_t =
  hrec_type :: hl_type
  hrec_key :: string
  hrec_value :: string
  hrec_nkeys :: int
  hrec_keys :: "string list"
  hrec_vals :: "string list"

text \<open>
  \<^verbatim>\<open>bcf_hdr_t\<close>: the header. The macros \<^verbatim>\<open>bcf_hdr_int2id(hdr, BCF_DT_ID, i)\<close> and
  \<^verbatim>\<open>bcf_hdr_id2name(hdr, rid)\<close> are htslib's and not part of the module; the two
  dictionaries they read are fields of the header here, total functions from the id to
  the name.
\<close>

record bcf_hdr_t =
  hdr_dict_id :: "int \<Rightarrow> string"
  hdr_dict_ctg :: "int \<Rightarrow> string"
  hdr_nhrec :: int
  hdr_hrec :: "bcf_hrec_t list"
  hdr_samples :: "string list"

definition bcf_hdr_int2id :: "bcf_hdr_t \<Rightarrow> int \<Rightarrow> string" where
  "bcf_hdr_int2id h i = hdr_dict_id h i"

definition bcf_hdr_id2name :: "bcf_hdr_t \<Rightarrow> int \<Rightarrow> string" where
  "bcf_hdr_id2name h i = hdr_dict_ctg h i"

subsection \<open>\<^verbatim>\<open>VCFFile\<close> and \<^verbatim>\<open>Record\<close>\<close>

text \<open>
  The four pointers of \<^verbatim>\<open>VCFFile\<close> are options, \<open>None\<close> for \<^verbatim>\<open>NULL\<close>. The stream
  and the two indexes are opaque handles. \<open>PASS\<close> is the cached filter id, \<open>-1\<close> until
  it is known.
\<close>

record VCFFile =
  hts :: "nat option"
  hdr :: "bcf_hdr_t option"
  idx :: "nat option"
  hidx :: "nat option"
  n_samples :: int
  PASS :: int
  fname :: string
  lazy :: bool
  samples :: "string list"
  seqnames :: "string list"
  format_types :: "(string \<times> string) list"

text \<open>
  \<^verbatim>\<open>Record\<close>: the record buffer and the owning file. The source holds a reference to
  the file, which \<^verbatim>\<open>FILTER\<close> writes through; here \<open>rec_vcf\<close> is the state of the file
  at the time of the call and the accessor returns the state after it.
\<close>

record Record =
  rec_b :: bcf1_t
  rec_vcf :: VCFFile

subsection \<open>The accessors of \<^verbatim>\<open>Record\<close>\<close>

definition CHROM :: "Record \<Rightarrow> string result" where
  "CHROM r =
     (case hdr (rec_vcf r) of
        None \<Rightarrow> Inl NullPointer
      | Some h \<Rightarrow> decode (bcf_hdr_id2name h (b_rid (rec_b r))))"

definition POS :: "Record \<Rightarrow> int" where
  "POS r = b_pos (rec_b r) + 1"

definition ID :: "Record \<Rightarrow> string list result" where
  "ID r =
     (let i = d_id (b_d (rec_b r))
      in if i = ''.'' then Inr []
         else bind_r (decode i) (\<lambda>s. Inr (py_split CHR '';'' s)))"

definition REF :: "Record \<Rightarrow> string result" where
  "REF r = bind_r (c_index (d_allele (b_d (rec_b r))) 0) decode"

definition ALT :: "Record \<Rightarrow> string list result" where
  "ALT r =
     collect (map (\<lambda>i. bind_r (c_index (d_allele (b_d (rec_b r))) i) decode)
                  (py_range 1 (b_n_allele (rec_b r))))"

text \<open>
  Modelled from the spec: \<^verbatim>\<open>bcf_float_is_missing\<close> and the reserved pattern are
  htslib's and absent from the module. The spec (4.4, QUAL) has the test compare the exact
  bit pattern with the one pattern reserved for "missing"; htslib's \<^verbatim>\<open>vcf.h\<close> names
  it \<^verbatim>\<open>bcf_float_missing\<close>, \<^verbatim>\<open>0x7F800001\<close>.
\<close>

definition bcf_float_missing :: "32 word" where
  "bcf_float_missing = 0x7F800001"

definition bcf_float_is_missing :: "32 word \<Rightarrow> bool" where
  "bcf_float_is_missing f = (f = bcf_float_missing)"

text \<open>The result of \<^verbatim>\<open>QUAL\<close> is \<open>None\<close> for Python's \<^verbatim>\<open>None\<close>, else the float, by its bits.\<close>

definition QUAL :: "Record \<Rightarrow> 32 word option" where
  "QUAL r =
     (let q = b_qual (rec_b r)
      in if bcf_float_is_missing q then None else Some q)"

text \<open>
  \<^verbatim>\<open>FILTER\<close> returns a list of text (\<open>FList\<close>) on some paths and a byte string
  (\<open>FBytes\<close>) on others. \<open>FILTER_rest\<close> is the code after the \<^verbatim>\<open>if n == 1\<close> block,
  which the cached branch falls through to when the id is not the cached one.
\<close>

datatype filter_value = FList "string list" | FBytes string

definition FILTER_rest :: "bcf_hdr_t option \<Rightarrow> Record \<Rightarrow> filter_value result" where
  "FILTER_rest ho r =
     (let n = d_n_flt (b_d (rec_b r))
      in if n = 0 then Inr (FList [])
         else (case ho of
                 None \<Rightarrow> Inl NullPointer
               | Some h \<Rightarrow>
                   bind_r (collect (map (\<lambda>i. bind_r (c_index (d_flt (b_d (rec_b r))) i)
                                                 (\<lambda>f. Inr (bcf_hdr_int2id h f)))
                                        (py_range 0 n)))
                          (\<lambda>names. Inr (FBytes (py_join '';'' names)))))"

definition FILTER :: "Record \<Rightarrow> (filter_value \<times> VCFFile) result" where
  "FILTER r =
     (let n = d_n_flt (b_d (rec_b r)); v = rec_vcf r;
          rest = bind_r (FILTER_rest (hdr v) r) (\<lambda>x. Inr (x, v))
      in if n = 1 then
           (if PASS v \<noteq> - 1 then
              bind_r (c_index (d_flt (b_d (rec_b r))) 0)
                (\<lambda>f0. if f0 = PASS v then Inr (FList [], v) else rest)
            else
              (case hdr v of
                 None \<Rightarrow> Inl NullPointer
               | Some h \<Rightarrow>
                   bind_r (c_index (d_flt (b_d (rec_b r))) 0)
                     (\<lambda>f0. let name = bcf_hdr_int2id h f0
                           in if name = ''PASS''
                              then Inr (FList [''PASS''], v\<lparr>PASS := f0\<rparr>)
                              else Inr (FBytes name, v))))
         else rest)"

subsection \<open>\<^verbatim>\<open>newRecord\<close>, iteration and the constructor of \<^verbatim>\<open>Record\<close>\<close>

text \<open>
  Modelled from the spec: \<^verbatim>\<open>bcf_unpack\<close> is htslib's and absent from the module. The
  spec (4.4) has eager mode unpack all field groups and lazy mode only the variant-level
  ones; the bits of the mask are htslib's \<^verbatim>\<open>BCF_UN_STR = 1\<close> (identifier and alleles),
  \<^verbatim>\<open>BCF_UN_FLT = 2\<close> (filters), \<^verbatim>\<open>BCF_UN_INFO = 4\<close> and \<^verbatim>\<open>BCF_UN_FMT = 8\<close>
  (per-sample fields, when the record has samples). A group is decoded once and the
  mask \<open>b_unpacked\<close> records it.
\<close>

definition unpack_str :: "int \<Rightarrow> bcf1_t \<Rightarrow> bcf1_t" where
  "unpack_str which b =
     (if which AND 1 \<noteq> 0 \<and> b_unpacked b AND 1 = 0
      then b\<lparr>b_d := (b_d b)\<lparr>d_id := b_shared_id b, d_allele := b_shared_allele b\<rparr>,
             b_unpacked := b_unpacked b OR 1\<rparr>
      else b)"

definition unpack_flt :: "int \<Rightarrow> bcf1_t \<Rightarrow> bcf1_t" where
  "unpack_flt which b =
     (if which AND 2 \<noteq> 0 \<and> b_unpacked b AND 2 = 0
      then b\<lparr>b_d := (b_d b)\<lparr>d_flt := b_shared_flt b,
                              d_n_flt := int (length (b_shared_flt b))\<rparr>,
             b_unpacked := b_unpacked b OR 2\<rparr>
      else b)"

definition unpack_info :: "int \<Rightarrow> bcf1_t \<Rightarrow> bcf1_t" where
  "unpack_info which b =
     (if which AND 4 \<noteq> 0 \<and> b_unpacked b AND 4 = 0
      then b\<lparr>b_d := (b_d b)\<lparr>d_info := b_shared_info b\<rparr>, b_unpacked := b_unpacked b OR 4\<rparr>
      else b)"

definition unpack_fmt :: "int \<Rightarrow> bcf1_t \<Rightarrow> bcf1_t" where
  "unpack_fmt which b =
     (if which AND 8 \<noteq> 0 \<and> b_n_sample b \<noteq> 0 \<and> b_unpacked b AND 8 = 0
      then b\<lparr>b_d := (b_d b)\<lparr>d_fmt := b_indiv b\<rparr>, b_unpacked := b_unpacked b OR 8\<rparr>
      else b)"

definition bcf_unpack :: "bcf1_t \<Rightarrow> int \<Rightarrow> bcf1_t" where
  "bcf_unpack b which =
     unpack_fmt which (unpack_info which (unpack_flt which (unpack_str which b)))"

definition newRecord :: "bcf1_t \<Rightarrow> VCFFile \<Rightarrow> Record" where
  "newRecord b vcf =
     \<lparr>rec_b = (if \<not> lazy vcf then bcf_unpack b 15 else bcf_unpack b (1 OR 2 OR 4)),
      rec_vcf = vcf\<rparr>"

text \<open>
  \<^verbatim>\<open>VCFFile.__next__\<close>. The first argument is what \<^verbatim>\<open>bcf_read\<close> left: its status and
  the buffer it filled.
\<close>

definition VCFFile_next :: "int \<times> bcf1_t \<Rightarrow> VCFFile \<Rightarrow> Record result" where
  "VCFFile_next rd self =
     (let ret = fst rd; b = snd rd
      in if ret \<ge> 0 then Inr (newRecord b self) else Inl StopIteration)"

text \<open>\<^verbatim>\<open>Record.__init__(self, *args, **kwargs)\<close>.\<close>

definition Record_init :: "'a list \<Rightarrow> (string \<times> 'a) list \<Rightarrow> unit result" where
  "Record_init args kwargs = Inl TypeError"

subsection \<open>\<^verbatim>\<open>VCFFile.__dealloc__\<close>\<close>



subsection \<open>\<^verbatim>\<open>VCFFile.set_samples\<close>\<close>

text \<open>A Python value that is text or a byte string, and the two helpers of the module.\<close>

datatype py_str = Text string | Bytes string

definition to_bytes :: "py_str \<Rightarrow> string result" where
  "to_bytes s = (case s of Bytes x \<Rightarrow> Inr x | Text x \<Rightarrow> encode x)"

definition from_bytes :: "py_str \<Rightarrow> string result" where
  "from_bytes s = (case s of Bytes x \<Rightarrow> decode x | Text x \<Rightarrow> Inr x)"

text \<open>The argument \<^verbatim>\<open>samples\<close>: \<^verbatim>\<open>None\<close>, a list of names, or one string.\<close>

datatype samples_arg = SNone | SList "string list" | SStr py_str

text \<open>The byte string handed to \<^verbatim>\<open>bcf_hdr_set_samples\<close>.\<close>

definition set_samples_bytes :: "samples_arg \<Rightarrow> string result" where
  "set_samples_bytes names =
     (case names of
        SNone \<Rightarrow> bind_r (encode ''-'') (\<lambda>x. to_bytes (Bytes x))
      | SList xs \<Rightarrow> to_bytes (Text (py_join '','' xs))
      | SStr x \<Rightarrow> to_bytes x)"

definition warning_text :: string where
  "warning_text = ''warning: not all samples in PED found in VCF'' @ [CHR 0x0A]"

text \<open>
  \<^verbatim>\<open>b.split(sep)\<close> for a byte string \<open>b\<close> and a separator \<open>sep\<close> that is text: Python
  raises \<^verbatim>\<open>TypeError\<close>, whatever the two hold.
\<close>

definition bytes_split_text :: "string \<Rightarrow> string \<Rightarrow> string list result" where
  "bytes_split_text b sep = Inl TypeError"

text \<open>
  \<open>ret\<close> is what \<^verbatim>\<open>bcf_hdr_set_samples\<close> returned for that byte string. The result
  is what the call wrote to \<^verbatim>\<open>sys.stderr\<close>. At the comparison and at the split,
  \<^verbatim>\<open>samples\<close> is the byte string \<^verbatim>\<open>to_bytes\<close> returned, and the literals \<^verbatim>\<open>"-"\<close> and
  \<^verbatim>\<open>","\<close> are text: a byte string and text are never equal, and the split raises.
\<close>

definition set_samples :: "int \<Rightarrow> samples_arg \<Rightarrow> string list result" where
  "set_samples ret names =
     bind_r (set_samples_bytes names)
       (\<lambda>sb. if \<not> ret \<ge> 0 then Inl AssertionError
             else if ret \<noteq> 0 \<and> Bytes sb \<noteq> Text ''-''
             then bind_r (bytes_split_text sb '','')
                    (\<lambda>s. if ret < int (length s) then Inr [warning_text] else Inr [])
             else Inr [])"

subsection \<open>\<^verbatim>\<open>HeaderLineFactory\<close> and \<^verbatim>\<open>VCFFile.load_header\<close>\<close>

text \<open>
  The header lines and the parsers are those of \<^verbatim>\<open>vcfpy.header\<close>, which the module
  imports. A header line is a plain \<^verbatim>\<open>HeaderLine(key, value)\<close> or whatever a parser
  returns, of a type \<open>'p\<close> left open; a parser is its method \<^verbatim>\<open>parse_key_value\<close>, which
  may raise. The registry \<open>fac_parsers\<close> is the dictionary \<^verbatim>\<open>build_header_parsers()\<close>
  returns. \<open>fac_repr\<close> is Python's \<^verbatim>\<open>repr\<close> on text.
\<close>

datatype 'p header_line = HeaderLine string string | ParsedLine 'p

type_synonym 'p parser = "string \<Rightarrow> string \<Rightarrow> 'p header_line result"

record 'p HeaderLineFactory =
  fac_hdr :: "bcf_hdr_t option"
  fac_parsers :: "string \<Rightarrow> 'p parser option"
  fac_repr :: "string \<Rightarrow> string"

text \<open>
  \<^verbatim>\<open>HeaderLineFactory.__init__(HeaderLineFactory)\<close>: the class defines no \<^verbatim>\<open>__init__\<close>,
  so this is \<^verbatim>\<open>object.__init__\<close> applied to the class, and its value is \<^verbatim>\<open>None\<close>. (A new
  object would come from \<^verbatim>\<open>__new__\<close>, as in \<^verbatim>\<open>newRecord\<close>.)
\<close>

definition HeaderLineFactory_init :: "'p HeaderLineFactory option" where
  "HeaderLineFactory_init = None"

text \<open>
  \<^verbatim>\<open>newHeaderLineFactory\<close> stores the header, the warning helper and the parsers through
  \<^verbatim>\<open>result\<close>. The first store through \<^verbatim>\<open>None\<close> is the error \<open>NoneField\<close>. (The warning
  helper is not read by \<^verbatim>\<open>build\<close> and is left out of the record.)
\<close>

definition newHeaderLineFactory ::
  "bcf_hdr_t option \<Rightarrow> (string \<Rightarrow> 'p parser option) \<Rightarrow> (string \<Rightarrow> string)
   \<Rightarrow> 'p HeaderLineFactory result" where
  "newHeaderLineFactory h build_header_parsers py_repr =
     (case HeaderLineFactory_init of
        None \<Rightarrow> Inl NoneField
      | Some result \<Rightarrow>
          Inr (result\<lparr>fac_hdr := h, fac_parsers := build_header_parsers,
                      fac_repr := py_repr\<rparr>))"

text \<open>
  \<^verbatim>\<open>OrderedDict(pairs)\<close>: a key keeps the place of its first occurrence and the value of
  its last.
\<close>

fun od_update :: "'k \<Rightarrow> 'v \<Rightarrow> ('k \<times> 'v) list \<Rightarrow> ('k \<times> 'v) list" where
  "od_update k v [] = [(k, v)]"
| "od_update k v (p # ps) = (if fst p = k then (k, v) # ps else p # od_update k v ps)"

definition OrderedDict :: "('k \<times> 'v) list \<Rightarrow> ('k \<times> 'v) list" where
  "OrderedDict pairs = foldl (\<lambda>m kv. od_update (fst kv) (snd kv) m) [] pairs"

definition hrec_pairs :: "bcf_hrec_t \<Rightarrow> (string \<times> string) list result" where
  "hrec_pairs hrec =
     collect (map (\<lambda>i. bind_r (c_index (hrec_keys hrec) i) (\<lambda>kb.
                        bind_r (from_bytes (Bytes kb)) (\<lambda>k.
                        bind_r (c_index (hrec_vals hrec) i) (\<lambda>vb.
                        bind_r (from_bytes (Bytes vb)) (\<lambda>v. Inr (k, v))))))
                  (py_range 0 (hrec_nkeys hrec)))"

definition mapping_s :: "(string \<Rightarrow> string) \<Rightarrow> (string \<times> string) list \<Rightarrow> string" where
  "mapping_s py_repr mapping =
     py_join '','' (map (\<lambda>kv. fst kv @ ''='' @ py_repr (snd kv)) mapping)"

definition build_parsed :: "'p HeaderLineFactory \<Rightarrow> bcf_hrec_t \<Rightarrow> 'p header_line result" where
  "build_parsed self hrec =
     bind_r (hrec_pairs hrec) (\<lambda>pairs.
       let ms = mapping_s (fac_repr self) (OrderedDict pairs)
       in bind_r (from_bytes (Bytes (hrec_key hrec))) (\<lambda>key.
            case fac_parsers self ''__default__'' of
              None \<Rightarrow> Inl KeyError
            | Some dflt \<Rightarrow>
                (case fac_parsers self key of
                   None \<Rightarrow> dflt key ms
                 | Some parser \<Rightarrow> parser key ms)))"

definition build_generic :: "'p HeaderLineFactory \<Rightarrow> bcf_hrec_t \<Rightarrow> 'p header_line result" where
  "build_generic self hrec =
     bind_r (from_bytes (Bytes (hrec_key hrec))) (\<lambda>k.
     bind_r (from_bytes (Bytes (hrec_value hrec))) (\<lambda>v. Inr (HeaderLine k v)))"

definition build :: "'p HeaderLineFactory \<Rightarrow> bcf_hrec_t \<Rightarrow> 'p header_line result" where
  "build self hrec =
     (if hrec_type hrec = BCF_HL_GEN then build_generic self hrec else build_parsed self hrec)"

text \<open>\<^verbatim>\<open>Header(lines, self.samples, wh)\<close>, of \<^verbatim>\<open>vcfpy.header\<close>.\<close>

record 'p Header =
  header_lines :: "'p header_line list"
  header_samples :: "string list"

text \<open>
  The comprehension \<^verbatim>\<open>[factory.build(self.hdr.hrec[i]) for i in range(self.hdr.nhrec)]\<close>.
\<close>

definition build_lines :: "'p HeaderLineFactory \<Rightarrow> bcf_hdr_t \<Rightarrow> 'p header_line list result" where
  "build_lines factory h =
     collect (map (\<lambda>i. bind_r (c_index (hdr_hrec h) i) (build factory))
                  (py_range 0 (hdr_nhrec h)))"

text \<open>
  \<^verbatim>\<open>load_header\<close> makes the factory, builds the entry at index 0 once, drops the
  result, and then builds every entry.
\<close>

definition load_header ::
  "(string \<Rightarrow> 'p parser option) \<Rightarrow> (string \<Rightarrow> string) \<Rightarrow> VCFFile \<Rightarrow> 'p Header result" where
  "load_header build_header_parsers py_repr self =
     bind_r (newHeaderLineFactory (hdr self) build_header_parsers py_repr) (\<lambda>factory.
       case hdr self of
         None \<Rightarrow> Inl NullPointer
       | Some h \<Rightarrow>
           bind_r (c_index (hdr_hrec h) 0) (\<lambda>h0.
           bind_r (build factory h0) (\<lambda>dropped.
           bind_r (build_lines factory h)
                  (\<lambda>lines. Inr \<lparr>header_lines = lines, header_samples = samples self\<rparr>))))"

subsection \<open>An example file\<close>

text \<open>
  A header with three entries and a filter dictionary \<open>0 \<mapsto> PASS\<close>, \<open>1 \<mapsto> q10\<close>, a file
  that has read it, and a raw record at offset 99 with the identifiers \<open>rs1;rs2\<close>, the
  alleles \<open>A\<close>, \<open>C\<close>, \<open>GT\<close> and the filter \<open>q10\<close>. The theorems below are evaluated on
  them. \<open>ex_factory\<close> is a factory as \<^verbatim>\<open>newHeaderLineFactory\<close> means to fill it, with a
  parser registered for \<open>FILTER\<close> and the default one; \<open>ex_hrec_ctg\<close> is an entry whose
  tag has no parser of its own.
\<close>

definition ex_dict_id :: "int \<Rightarrow> string" where
  "ex_dict_id i = (if i = 0 then ''PASS'' else if i = 1 then ''q10'' else ''s50'')"

definition ex_dict_ctg :: "int \<Rightarrow> string" where
  "ex_dict_ctg i = (if i = 0 then ''chr1'' else ''chr2'')"

definition ex_hrec_gen :: bcf_hrec_t where
  "ex_hrec_gen = \<lparr>hrec_type = BCF_HL_GEN, hrec_key = ''fileformat'', hrec_value = ''VCFv4.2'',
                  hrec_nkeys = 0, hrec_keys = [], hrec_vals = []\<rparr>"

definition ex_hrec_flt :: bcf_hrec_t where
  "ex_hrec_flt = \<lparr>hrec_type = BCF_HL_FLT, hrec_key = ''FILTER'', hrec_value = [],
                  hrec_nkeys = 2, hrec_keys = [''ID'', ''Description''],
                  hrec_vals = [''q10'', ''Quality below 10'']\<rparr>"

definition ex_hrec_ctg :: bcf_hrec_t where
  "ex_hrec_ctg = \<lparr>hrec_type = BCF_HL_CTG, hrec_key = ''contig'', hrec_value = [],
                  hrec_nkeys = 1, hrec_keys = [''ID''], hrec_vals = [''chr1'']\<rparr>"

definition ex_hdr :: bcf_hdr_t where
  "ex_hdr = \<lparr>hdr_dict_id = ex_dict_id, hdr_dict_ctg = ex_dict_ctg, hdr_nhrec = 3,
             hdr_hrec = [ex_hrec_gen, ex_hrec_flt, ex_hrec_gen], hdr_samples = [''A'', ''B'']\<rparr>"

definition ex_file :: VCFFile where
  "ex_file = \<lparr>hts = Some 1, hdr = Some ex_hdr, idx = None, hidx = None, n_samples = 2,
              PASS = - 1, fname = ''in.bcf'', lazy = False, samples = [''A'', ''B''],
              seqnames = [], format_types = []\<rparr>"

definition ex_dec0 :: bcf_dec_t where
  "ex_dec0 = \<lparr>d_id = [], d_allele = [], d_flt = [], d_n_flt = 0, d_info = [], d_fmt = []\<rparr>"

definition ex_raw :: bcf1_t where
  "ex_raw = \<lparr>b_rid = 0, b_pos = 99, b_qual = 0, b_n_allele = 3, b_n_sample = 2,
             b_shared_id = ''rs1;rs2'', b_shared_allele = [''A'', ''C'', ''GT''],
             b_shared_flt = [1], b_shared_info = [], b_indiv = [''GT''], b_unpacked = 0,
             b_d = ex_dec0\<rparr>"

definition ex_parser_dflt :: "string parser" where
  "ex_parser_dflt key ms = Inr (ParsedLine (''default '' @ key @ '' '' @ ms))"

definition ex_parser_flt :: "string parser" where
  "ex_parser_flt key ms = Inr (ParsedLine (''filter '' @ ms))"

definition ex_parsers :: "string \<Rightarrow> string parser option" where
  "ex_parsers k =
     (if k = ''__default__'' then Some ex_parser_dflt
      else if k = ''FILTER'' then Some ex_parser_flt else None)"

definition ex_repr :: "string \<Rightarrow> string" where
  "ex_repr v = [CHR 0x27] @ v @ [CHR 0x27]"

definition ex_factory :: "string HeaderLineFactory" where
  "ex_factory = \<lparr>fac_hdr = Some ex_hdr, fac_parsers = ex_parsers, fac_repr = ex_repr\<rparr>"

section \<open>Properties\<close>

subsection \<open>Auxiliary facts\<close>

lemma bind_r_simps [simp]:
  "bind_r (Inl e) f = Inl e"
  "bind_r (Inr x) f = f x"
  by (simp_all add: bind_r_def)

lemma collect_map_Inr: "collect (map (\<lambda>x. Inr (f x)) xs) = Inr (map f xs)"
  by (induction xs) simp_all

lemma collect_eq_Inr: "collect ms = Inr xs \<longleftrightarrow> ms = map Inr xs"
proof (induction ms arbitrary: xs)
  case Nil
  show ?case by auto
next
  case (Cons m ms)
  show ?case
  proof (cases m)
    case (Inl e)
    then show ?thesis by (cases xs) auto
  next
    case (Inr x)
    show ?thesis
    proof (cases "collect ms")
      case (Inl e)
      with Inr Cons.IH show ?thesis by (cases xs) auto
    next
      case r: (Inr ys)
      with Inr Cons.IH [of ys] show ?thesis by (cases xs) auto
    qed
  qed
qed

lemma py_split_nonempty: "py_split sep s \<noteq> []"
  by (induction s) simp_all

lemma py_join_Cons: "ps \<noteq> [] \<Longrightarrow> py_join sep (p # ps) = p @ sep @ py_join sep ps"
  by (cases ps) simp_all

lemma py_join_split: "py_join [sep] (py_split sep s) = s"
proof (induction s)
  case Nil
  show ?case by simp
next
  case (Cons c cs)
  obtain p ps where sp: "py_split sep cs = p # ps"
    using py_split_nonempty [of sep cs] by (cases "py_split sep cs") auto
  show ?case
  proof (cases "c = sep")
    case True
    with Cons show ?thesis by (simp add: py_join_Cons py_split_nonempty)
  next
    case False
    with Cons sp show ?thesis by (cases ps) simp_all
  qed
qed

lemma py_split_no_sep: "p \<in> set (py_split sep s) \<Longrightarrow> sep \<notin> set p"
proof (induction s arbitrary: p)
  case Nil
  then show ?case by simp
next
  case (Cons c cs)
  obtain q qs where sp: "py_split sep cs = q # qs"
    using py_split_nonempty [of sep cs] by (cases "py_split sep cs") auto
  show ?case
  proof (cases "c = sep")
    case True
    with Cons show ?thesis by auto
  next
    case False
    with Cons.prems sp have "p = c # q \<or> p \<in> set qs" by auto
    with Cons.IH sp False show ?thesis by auto
  qed
qed

lemmas ex_defs = ex_dict_id_def ex_dict_ctg_def ex_hrec_gen_def ex_hrec_flt_def ex_hdr_def
  ex_file_def ex_dec0_def ex_raw_def

lemmas unpack_defs = newRecord_def bcf_unpack_def unpack_str_def unpack_flt_def unpack_info_def
  unpack_fmt_def

subsection \<open>Position, reference and alternative alleles\<close>

lemma map_nth_from_1: "map ((!) xs) [Suc 0..<length xs] = tl xs"
  by (rule nth_equalityI) (simp_all add: nth_tl)

lemma ALT_valid:
  assumes n: "b_n_allele (rec_b r) = int (length (d_allele (b_d (rec_b r))))"
      and a: "\<forall>a \<in> set (d_allele (b_d (rec_b r))). ascii a"
  shows "ALT r = Inr (tl (d_allele (b_d (rec_b r))))"
proof -
  let ?al = "d_allele (b_d (rec_b r))"
  have "map (\<lambda>i. bind_r (c_index ?al i) decode) (py_range 1 (int (length ?al)))
        = map (\<lambda>i. Inr (?al ! i)) [1..<length ?al]"
    using a by (auto simp: py_range_def c_index_def decode_def comp_def)
  then show ?thesis
    using n by (simp add: ALT_def collect_map_Inr map_nth_from_1)
qed

text \<open>
  C7. For a record whose allele count is the length of its allele array and at least 1,
  with ASCII alleles: \<open>POS\<close> is the 0-based offset plus 1, \<open>REF\<close> is the allele at
  index 0, and \<open>ALT\<close> is the alleles at the indices \<open>1 .. n_allele - 1\<close> in their
  order (the allele array without its head), the empty list when there is one allele.
\<close>

theorem POS_REF_ALT:
  assumes "b_n_allele (rec_b r) = int (length (d_allele (b_d (rec_b r))))"
      and "1 \<le> b_n_allele (rec_b r)"
      and "\<forall>a \<in> set (d_allele (b_d (rec_b r))). ascii a"
  shows "POS r = b_pos (rec_b r) + 1 \<and>
         REF r = Inr (d_allele (b_d (rec_b r)) ! 0) \<and>
         ALT r = Inr (tl (d_allele (b_d (rec_b r)))) \<and>
         (b_n_allele (rec_b r) = 1 \<longrightarrow> ALT r = Inr [])"
proof -
  let ?al = "d_allele (b_d (rec_b r))"
  have ne: "?al \<noteq> []" using assms(1,2) by auto
  have alt: "ALT r = Inr (tl ?al)" using assms(1,3) by (rule ALT_valid)
  have ref: "REF r = Inr (?al ! 0)"
    using ne assms(3) by (cases ?al) (auto simp: REF_def c_index_def decode_def)
  have one: "b_n_allele (rec_b r) = 1 \<longrightarrow> tl ?al = []"
    using assms(1) by (cases ?al) auto
  show ?thesis using alt ref one by (simp add: POS_def)
qed

text \<open>The example record: offset 99, alleles \<open>A\<close>, \<open>C\<close>, \<open>GT\<close>.\<close>

theorem POS_REF_ALT_witness:
  "POS (newRecord ex_raw ex_file) = 100 \<and>
   REF (newRecord ex_raw ex_file) = Inr ''A'' \<and>
   ALT (newRecord ex_raw ex_file) = Inr [''C'', ''GT'']"
proof -
  let ?r = "newRecord ex_raw ex_file"
  have al: "d_allele (b_d (rec_b ?r)) = [''A'', ''C'', ''GT'']"
    by (simp add: unpack_defs ex_defs)
  have h1: "b_n_allele (rec_b ?r) = int (length (d_allele (b_d (rec_b ?r))))"
    unfolding al by (simp add: unpack_defs ex_defs)
  have h2: "1 \<le> b_n_allele (rec_b ?r)"
    by (simp add: unpack_defs ex_defs)
  have h3: "\<forall>a \<in> set (d_allele (b_d (rec_b ?r))). ascii a"
    unfolding al by (simp add: ascii_def)
  have p: "b_pos (rec_b ?r) = 99" by (simp add: unpack_defs ex_defs)
  show ?thesis using POS_REF_ALT [OF h1 h2 h3] unfolding al p by simp
qed

subsection \<open>Identifiers\<close>

text \<open>
  C8. For a record with an ASCII identifier string: the string \<open>.\<close> gives the empty
  list; any other string is split at \<open>;\<close>, that is, the result is a list of strings
  free of \<open>;\<close> which, joined with \<open>;\<close> in their order, give the identifier string
  back.
\<close>

theorem ID_sentinel_or_split:
  assumes "ascii (d_id (b_d (rec_b r)))"
  shows "(d_id (b_d (rec_b r)) = ''.'' \<longrightarrow> ID r = Inr []) \<and>
         (d_id (b_d (rec_b r)) \<noteq> ''.'' \<longrightarrow>
            (\<exists>ids. ID r = Inr ids \<and> ids = py_split CHR '';'' (d_id (b_d (rec_b r))) \<and>
                   py_join '';'' ids = d_id (b_d (rec_b r)) \<and>
                   (\<forall>p \<in> set ids. CHR '';'' \<notin> set p)))"
  using assms by (auto simp: ID_def Let_def decode_def py_join_split dest: py_split_no_sep)

text \<open>The example record with \<open>rs1;rs2\<close>, and with \<open>.\<close>.\<close>

theorem ID_sentinel_or_split_witness:
  "ID (newRecord ex_raw ex_file) = Inr [''rs1'', ''rs2''] \<and>
   ID (newRecord (ex_raw\<lparr>b_shared_id := ''.''\<rparr>) ex_file) = Inr []"
proof -
  let ?r = "newRecord ex_raw ex_file"
  let ?q = "newRecord (ex_raw\<lparr>b_shared_id := ''.''\<rparr>) ex_file"
  have i: "d_id (b_d (rec_b ?r)) = ''rs1;rs2''" by (simp add: unpack_defs ex_defs)
  have j: "d_id (b_d (rec_b ?q)) = ''.''" by (simp add: unpack_defs ex_defs)
  have a: "ascii (d_id (b_d (rec_b ?r)))" unfolding i by (simp add: ascii_def)
  have b: "ascii (d_id (b_d (rec_b ?q)))" unfolding j by (simp add: ascii_def)
  show ?thesis
    using ID_sentinel_or_split [OF a] ID_sentinel_or_split [OF b] unfolding i j by simp
qed

subsection \<open>Quality\<close>

text \<open>
  C6. \<open>QUAL\<close> is \<open>None\<close> exactly when the 32 bits of the quality are the reserved
  pattern; for every other pattern it is the value, unchanged.
\<close>

theorem QUAL_missing_pattern:
  "(QUAL r = None \<longleftrightarrow> b_qual (rec_b r) = 0x7F800001) \<and>
   (b_qual (rec_b r) \<noteq> 0x7F800001 \<longrightarrow> QUAL r = Some (b_qual (rec_b r)))"
  by (simp add: QUAL_def Let_def bcf_float_is_missing_def bcf_float_missing_def)

text \<open>
  The quality \<open>0.0\<close> (all bits zero) and the quiet not-a-number \<open>0x7FC00000\<close> are
  returned; the reserved pattern is not.
\<close>

theorem QUAL_missing_pattern_witness:
  "QUAL (newRecord ex_raw ex_file) = Some 0 \<and>
   QUAL (newRecord (ex_raw\<lparr>b_qual := 0x7FC00000\<rparr>) ex_file) = Some 0x7FC00000 \<and>
   QUAL (newRecord (ex_raw\<lparr>b_qual := 0x7F800001\<rparr>) ex_file) = None"
proof -
  let ?r = "newRecord ex_raw ex_file"
  let ?n = "newRecord (ex_raw\<lparr>b_qual := 0x7FC00000\<rparr>) ex_file"
  let ?m = "newRecord (ex_raw\<lparr>b_qual := 0x7F800001\<rparr>) ex_file"
  have q: "b_qual (rec_b ?r) = 0" "b_qual (rec_b ?n) = 0x7FC00000"
    "b_qual (rec_b ?m) = 0x7F800001"
    by (simp_all add: unpack_defs ex_defs)
  show ?thesis
    using QUAL_missing_pattern [of ?r] QUAL_missing_pattern [of ?n]
      QUAL_missing_pattern [of ?m]
    unfolding q by simp
qed

subsection \<open>Construction of records\<close>

text \<open>
  C10. The constructor of \<open>Record\<close> raises \<open>TypeError\<close> for all positional and keyword
  arguments. A record comes from the iteration: on a status \<open>\<ge> 0\<close> of the read,
  \<open>__next__\<close> returns \<open>newRecord\<close> of the buffer and the file, which holds the file and
  the buffer unpacked for the mode of the file; on a negative status it raises
  \<open>StopIteration\<close>.
\<close>

theorem Record_only_from_iteration:
  "Record_init args kwargs = Inl TypeError \<and>
   (0 \<le> ret \<longrightarrow>
      VCFFile_next (ret, b) v = Inr (newRecord b v) \<and>
      rec_vcf (newRecord b v) = v \<and>
      rec_b (newRecord b v) = bcf_unpack b (if lazy v then 7 else 15)) \<and>
   (ret < 0 \<longrightarrow> VCFFile_next (ret, b) v = Inl StopIteration)"
  by (simp add: Record_init_def VCFFile_next_def newRecord_def)

text \<open>The example record read into the example file, and the end of the stream.\<close>

theorem Record_only_from_iteration_witness:
  "Record_init [''x''] [(''k'', ''y'')] = Inl TypeError \<and>
   VCFFile_next (0, ex_raw) ex_file = Inr (newRecord ex_raw ex_file) \<and>
   rec_vcf (newRecord ex_raw ex_file) = ex_file \<and>
   d_allele (b_d (rec_b (newRecord ex_raw ex_file))) = [''A'', ''C'', ''GT''] \<and>
   VCFFile_next (- 1, ex_raw) ex_file = Inl StopIteration"
proof -
  have l: "\<not> lazy ex_file" by (simp add: ex_file_def)
  have u: "d_allele (b_d (bcf_unpack ex_raw 15)) = [''A'', ''C'', ''GT'']"
    by (simp add: unpack_defs ex_defs)
  show ?thesis
    using Record_only_from_iteration [of "[''x'']" "[(''k'', ''y'')]" 0 ex_raw ex_file]
      Record_only_from_iteration [of "[''x'']" "[(''k'', ''y'')]" "- 1" ex_raw ex_file]
      l u
    by simp
qed

subsection \<open>Eager and lazy mode\<close>

lemma unpack_str_masks: "unpack_str 15 b = unpack_str 7 b"
  by (simp add: unpack_str_def)

lemma unpack_flt_masks: "unpack_flt 15 b = unpack_flt 7 b"
  by (simp add: unpack_flt_def)

lemma unpack_info_masks: "unpack_info 15 b = unpack_info 7 b"
  by (simp add: unpack_info_def)

lemma unpack_fmt_lazy: "unpack_fmt 7 b = b"
  by (simp add: unpack_fmt_def)

lemma unpack_fmt_fields:
  "b_rid (unpack_fmt w b) = b_rid b"
  "b_pos (unpack_fmt w b) = b_pos b"
  "b_qual (unpack_fmt w b) = b_qual b"
  "b_n_allele (unpack_fmt w b) = b_n_allele b"
  "d_id (b_d (unpack_fmt w b)) = d_id (b_d b)"
  "d_allele (b_d (unpack_fmt w b)) = d_allele (b_d b)"
  "d_flt (b_d (unpack_fmt w b)) = d_flt (b_d b)"
  "d_n_flt (b_d (unpack_fmt w b)) = d_n_flt (b_d b)"
  by (simp_all add: unpack_fmt_def)

lemma bcf_unpack_eager: "bcf_unpack b 15 = unpack_fmt 15 (bcf_unpack b 7)"
  unfolding bcf_unpack_def unpack_fmt_lazy
  by (simp only: unpack_str_masks unpack_flt_masks unpack_info_masks)

lemma eager_lazy_fields:
  "b_rid (bcf_unpack b 15) = b_rid (bcf_unpack b 7)"
  "b_pos (bcf_unpack b 15) = b_pos (bcf_unpack b 7)"
  "b_qual (bcf_unpack b 15) = b_qual (bcf_unpack b 7)"
  "b_n_allele (bcf_unpack b 15) = b_n_allele (bcf_unpack b 7)"
  "d_id (b_d (bcf_unpack b 15)) = d_id (b_d (bcf_unpack b 7))"
  "d_allele (b_d (bcf_unpack b 15)) = d_allele (b_d (bcf_unpack b 7))"
  "d_flt (b_d (bcf_unpack b 15)) = d_flt (b_d (bcf_unpack b 7))"
  "d_n_flt (b_d (bcf_unpack b 15)) = d_n_flt (b_d (bcf_unpack b 7))"
  unfolding bcf_unpack_eager by (rule unpack_fmt_fields)+

text \<open>
  C5. For every raw record and file, \<open>CHROM\<close>, \<open>POS\<close>, \<open>REF\<close>, \<open>ALT\<close> and \<open>QUAL\<close> of the
  record decoded in lazy mode are those of the record decoded in eager mode, and so are
  the value \<open>FILTER\<close> returns and the PASS id it leaves in the file.
\<close>

theorem eager_lazy_parity:
  "CHROM (newRecord b (v\<lparr>lazy := True\<rparr>)) = CHROM (newRecord b (v\<lparr>lazy := False\<rparr>)) \<and>
   POS (newRecord b (v\<lparr>lazy := True\<rparr>)) = POS (newRecord b (v\<lparr>lazy := False\<rparr>)) \<and>
   REF (newRecord b (v\<lparr>lazy := True\<rparr>)) = REF (newRecord b (v\<lparr>lazy := False\<rparr>)) \<and>
   ALT (newRecord b (v\<lparr>lazy := True\<rparr>)) = ALT (newRecord b (v\<lparr>lazy := False\<rparr>)) \<and>
   QUAL (newRecord b (v\<lparr>lazy := True\<rparr>)) = QUAL (newRecord b (v\<lparr>lazy := False\<rparr>)) \<and>
   map_sum id (\<lambda>p. (fst p, PASS (snd p))) (FILTER (newRecord b (v\<lparr>lazy := True\<rparr>))) =
   map_sum id (\<lambda>p. (fst p, PASS (snd p))) (FILTER (newRecord b (v\<lparr>lazy := False\<rparr>)))"
  apply (intro conjI)
  subgoal by (simp add: CHROM_def newRecord_def eager_lazy_fields split: option.splits)
  subgoal by (simp add: POS_def newRecord_def eager_lazy_fields)
  subgoal by (simp add: REF_def newRecord_def eager_lazy_fields)
  subgoal by (simp add: ALT_def newRecord_def eager_lazy_fields)
  subgoal by (simp add: QUAL_def newRecord_def eager_lazy_fields)
  subgoal
    by (auto simp add: FILTER_def FILTER_rest_def Let_def newRecord_def eager_lazy_fields
        bind_r_def split: sum.splits option.splits)
  done


text \<open>
  The example record: its values in lazy mode are computed, and the theorem gives them
  for eager mode.
\<close>

theorem eager_lazy_parity_witness:
  "CHROM (newRecord ex_raw (ex_file\<lparr>lazy := False\<rparr>)) = Inr ''chr1'' \<and>
   POS (newRecord ex_raw (ex_file\<lparr>lazy := False\<rparr>)) = 100 \<and>
   REF (newRecord ex_raw (ex_file\<lparr>lazy := False\<rparr>)) = Inr ''A'' \<and>
   ALT (newRecord ex_raw (ex_file\<lparr>lazy := False\<rparr>)) = Inr [''C'', ''GT''] \<and>
   QUAL (newRecord ex_raw (ex_file\<lparr>lazy := False\<rparr>)) = Some 0 \<and>
   map_sum id (\<lambda>p. (fst p, PASS (snd p))) (FILTER (newRecord ex_raw (ex_file\<lparr>lazy := False\<rparr>)))
     = Inr (FBytes ''q10'', - 1)"
proof -
  let ?l = "newRecord ex_raw (ex_file\<lparr>lazy := True\<rparr>)"
  have b: "rec_b ?l = ex_raw\<lparr>b_unpacked := 7,
      b_d := \<lparr>d_id = ''rs1;rs2'', d_allele = [''A'', ''C'', ''GT''], d_flt = [1], d_n_flt = 1,
              d_info = [], d_fmt = []\<rparr>\<rparr>"
    by (simp add: unpack_defs ex_defs)
  have v: "rec_vcf ?l = ex_file\<lparr>lazy := True\<rparr>" by (simp add: newRecord_def)
  have 1: "CHROM ?l = Inr ''chr1''"
    unfolding CHROM_def b v
    by (simp add: ex_defs bcf_hdr_id2name_def decode_def ascii_def)
  have 2: "POS ?l = 100" unfolding POS_def b by (simp add: ex_defs)
  have 3: "REF ?l = Inr ''A''"
    unfolding REF_def b by (simp add: c_index_def decode_def ascii_def)
  have 4: "ALT ?l = Inr [''C'', ''GT'']"
    unfolding ALT_def b
    by (simp add: ex_raw_def py_range_def c_index_def decode_def ascii_def upt_rec)
  have 5: "QUAL ?l = Some 0"
    unfolding QUAL_def b
    by (simp add: ex_raw_def bcf_float_is_missing_def bcf_float_missing_def)
  have 6: "FILTER ?l = Inr (FBytes ''q10'', ex_file\<lparr>lazy := True\<rparr>)"
    unfolding FILTER_def b v
    by (simp add: ex_file_def ex_hdr_def ex_dict_id_def c_index_def bcf_hdr_int2id_def)
  have 7: "PASS (ex_file\<lparr>lazy := True\<rparr>) = - 1" by (simp add: ex_file_def)
  show ?thesis
    using eager_lazy_parity [of ex_raw ex_file] unfolding 1 2 3 4 5 6 by (simp add: 7)
qed

subsection \<open>Teardown\<close>





subsection \<open>Sample subsetting\<close>

text \<open>
  What \<open>set_samples\<close> does with the value of \<^verbatim>\<open>bcf_hdr_set_samples\<close>: a negative value
  fails the assertion; 0 writes nothing; every positive value reaches the split of the
  byte string by \<^verbatim>\<open>","\<close> and raises \<open>TypeError\<close>. The warning is never written.
\<close>

lemma set_samples_by_ret:
  assumes "set_samples_bytes names = Inr sb"
  shows "set_samples ret names =
           (if ret < 0 then Inl AssertionError else if ret = 0 then Inr [] else Inl TypeError)"
  using assms by (simp add: set_samples_def bytes_split_text_def)

lemma set_samples_writes_nothing:
  assumes "set_samples ret names = Inr out"
  shows "out = []"
  using assms
  by (auto simp: set_samples_def bytes_split_text_def bind_r_def
      split: sum.splits if_splits)

lemma set_samples_bytes_None: "set_samples_bytes SNone = Inr ''-''"
  by (simp add: set_samples_bytes_def to_bytes_def encode_def ascii_def)

lemma set_samples_None: "set_samples 0 SNone = Inr []"
  by (simp add: set_samples_by_ret [OF set_samples_bytes_None])

text \<open>
  C4 has a warning, and no exception, when names that are not in the file are
  requested. For the names \<open>A\<close>, \<open>B\<close>, \<open>Z\<close>, the byte string handed to htslib is
  \<open>A,B,Z\<close>; with the return 3 (htslib returns the position of the first name it does
  not find) and with the return 2 (two names matched, as C4 reads the value) the call
  raises \<open>TypeError\<close> and writes nothing.
\<close>

theorem set_samples_missing_name_raises:
  "set_samples_bytes (SList [''A'', ''B'', ''Z'']) = Inr ''A,B,Z'' \<and>
   set_samples 3 (SList [''A'', ''B'', ''Z'']) = Inl TypeError \<and>
   set_samples 2 (SList [''A'', ''B'', ''Z'']) = Inl TypeError"
proof -
  have b: "set_samples_bytes (SList [''A'', ''B'', ''Z'']) = Inr ''A,B,Z''"
    by (simp add: set_samples_bytes_def to_bytes_def encode_def ascii_def)
  show ?thesis
    by (simp add: b set_samples_by_ret [OF b])
qed

subsection \<open>Header lines\<close>

lemma map_c_index_range:
  "map (\<lambda>i. bind_r (c_index xs i) f) (py_range 0 (int (length xs))) = map f xs"
  by (rule nth_equalityI) (simp_all add: py_range_def c_index_def)

text \<open>
  What \<open>build\<close> and the comprehension do once they have a factory. An entry of the
  generic kind becomes the plain line of its key and value. Any other entry goes to the
  parser registered for its key, and to the default parser when none is registered,
  with the key and the rendered mapping. The comprehension returns the lines when every
  entry builds, one per entry and in the order of the entries.
\<close>

lemma build_generic_line:
  assumes "hrec_type x = BCF_HL_GEN" and "ascii (hrec_key x)" and "ascii (hrec_value x)"
  shows "build fac x = Inr (HeaderLine (hrec_key x) (hrec_value x))"
  using assms by (simp add: build_def build_generic_def from_bytes_def decode_def)

lemma build_parsed_line:
  assumes "hrec_type x \<noteq> BCF_HL_GEN" and "hrec_pairs x = Inr pairs" and "ascii (hrec_key x)"
      and "fac_parsers fac ''__default__'' = Some d"
  shows "build fac x =
           (case fac_parsers fac (hrec_key x) of None \<Rightarrow> d | Some p \<Rightarrow> p)
             (hrec_key x) (mapping_s (fac_repr fac) (OrderedDict pairs))"
  using assms
  by (simp add: build_def build_parsed_def from_bytes_def decode_def split: option.splits)

lemma build_lines_order:
  assumes "hdr_nhrec h = int (length (hdr_hrec h))"
  shows "build_lines fac h = Inr ls \<longleftrightarrow> map (build fac) (hdr_hrec h) = map Inr ls"
  using assms by (simp add: build_lines_def map_c_index_range collect_eq_Inr)

lemma build_registered_example:
  "build ex_factory ex_hrec_flt
     = Inr (ParsedLine (''filter ID='' @ ex_repr ''q10'' @ '',Description=''
                        @ ex_repr ''Quality below 10''))"
proof -
  have p: "hrec_pairs ex_hrec_flt
           = Inr [(''ID'', ''q10''), (''Description'', ''Quality below 10'')]"
    by (simp add: hrec_pairs_def ex_hrec_flt_def py_range_def upt_rec c_index_def
        from_bytes_def decode_def ascii_def)
  have t: "hrec_type ex_hrec_flt \<noteq> BCF_HL_GEN" "ascii (hrec_key ex_hrec_flt)"
    "hrec_key ex_hrec_flt = ''FILTER''"
    by (simp_all add: ex_hrec_flt_def ascii_def)
  have d: "fac_parsers ex_factory ''__default__'' = Some ex_parser_dflt"
    "fac_parsers ex_factory ''FILTER'' = Some ex_parser_flt" "fac_repr ex_factory = ex_repr"
    by (simp_all add: ex_factory_def ex_parsers_def)
  show ?thesis
    unfolding build_parsed_line [OF t(1) p t(2) d(1)] t(3) d
    by (simp add: OrderedDict_def mapping_s_def ex_parser_flt_def)
qed

lemma build_default_example:
  "build ex_factory ex_hrec_ctg = Inr (ParsedLine (''default contig ID='' @ ex_repr ''chr1''))"
proof -
  have p: "hrec_pairs ex_hrec_ctg = Inr [(''ID'', ''chr1'')]"
    by (simp add: hrec_pairs_def ex_hrec_ctg_def py_range_def upt_rec c_index_def
        from_bytes_def decode_def ascii_def)
  have t: "hrec_type ex_hrec_ctg \<noteq> BCF_HL_GEN" "ascii (hrec_key ex_hrec_ctg)"
    "hrec_key ex_hrec_ctg = ''contig''"
    by (simp_all add: ex_hrec_ctg_def ascii_def)
  have d: "fac_parsers ex_factory ''__default__'' = Some ex_parser_dflt"
    "fac_parsers ex_factory ''contig'' = None" "fac_repr ex_factory = ex_repr"
    by (simp_all add: ex_factory_def ex_parsers_def)
  show ?thesis
    unfolding build_parsed_line [OF t(1) p t(2) d(1)] t(3) d
    by (simp add: OrderedDict_def mapping_s_def ex_parser_dflt_def)
qed

text \<open>
  \<open>load_header\<close> never gets that far: the factory is \<^verbatim>\<open>None\<close>, and the first store
  through it is the error.
\<close>

lemma load_header_fails: "load_header ps rp v = Inl NoneField"
  by (simp add: load_header_def newHeaderLineFactory_def HeaderLineFactory_init_def)

text \<open>
  C9 has the decoding of a header with \<open>N\<close> entries yield \<open>N\<close> header lines in the order
  of the entries. On the example file, whose header has three entries,
  \<open>newHeaderLineFactory\<close> returns no factory and \<open>load_header\<close> returns no header.
\<close>

theorem load_header_no_factory:
  "hdr ex_file = Some ex_hdr \<and> length (hdr_hrec ex_hdr) = 3 \<and>
   newHeaderLineFactory (hdr ex_file) ex_parsers ex_repr = Inl NoneField \<and>
   load_header ex_parsers ex_repr ex_file = Inl NoneField"
  by (simp add: load_header_def newHeaderLineFactory_def HeaderLineFactory_init_def
      ex_file_def ex_hdr_def)

subsection \<open>Filters\<close>

text \<open>
  What \<open>FILTER\<close> returns for a record whose filter count is the length of its filter
  array: with the PASS id cached, the empty list for no filter and for the cached id
  alone, and otherwise the byte string of the names joined by \<open>;\<close>, for one filter as
  for several; the file is unchanged. With no PASS id cached and one filter, the list
  \<open>[PASS]\<close> and the id stored in the file when the name is \<open>PASS\<close>, and otherwise the
  name as a byte string. Once an id is cached, \<open>FILTER\<close> never writes the file.
\<close>

lemma map_c_index_names:
  "collect (map (\<lambda>i. bind_r (c_index xs i) (\<lambda>f. Inr (g f))) (py_range 0 (int (length xs))))
   = Inr (map g xs)"
  by (simp add: map_c_index_range collect_map_Inr)

lemma FILTER_rest_valid:
  assumes "d_n_flt (b_d (rec_b r)) = int (length (d_flt (b_d (rec_b r))))"
  shows "FILTER_rest (Some h) r =
           Inr (if d_flt (b_d (rec_b r)) = [] then FList []
                else FBytes (py_join '';'' (map (bcf_hdr_int2id h) (d_flt (b_d (rec_b r))))))"
  using assms by (simp add: FILTER_rest_def map_c_index_names)

lemma FILTER_cached:
  assumes "hdr (rec_vcf r) = Some h" and "PASS (rec_vcf r) \<noteq> - 1"
      and "d_n_flt (b_d (rec_b r)) = int (length (d_flt (b_d (rec_b r))))"
  shows "FILTER r =
           Inr (if d_flt (b_d (rec_b r)) = [] \<or> d_flt (b_d (rec_b r)) = [PASS (rec_vcf r)]
                then FList []
                else FBytes (py_join '';'' (map (bcf_hdr_int2id h) (d_flt (b_d (rec_b r))))),
                rec_vcf r)"
proof (cases "d_flt (b_d (rec_b r))")
  case Nil
  with assms show ?thesis by (simp add: FILTER_def FILTER_rest_valid)
next
  case (Cons f fs)
  with assms show ?thesis
    by (cases fs) (simp_all add: FILTER_def FILTER_rest_valid c_index_def)
qed

lemma FILTER_uncached_single:
  assumes "hdr (rec_vcf r) = Some h" and "PASS (rec_vcf r) = - 1"
      and "d_n_flt (b_d (rec_b r)) = 1" and "d_flt (b_d (rec_b r)) = [f]"
  shows "FILTER r =
           Inr (if bcf_hdr_int2id h f = ''PASS''
                then (FList [''PASS''], (rec_vcf r)\<lparr>PASS := f\<rparr>)
                else (FBytes (bcf_hdr_int2id h f), rec_vcf r))"
  using assms by (simp add: FILTER_def c_index_def Let_def)

lemma FILTER_cache_kept:
  assumes "PASS (rec_vcf r) \<noteq> - 1" and "FILTER r = Inr (x, v')"
  shows "v' = rec_vcf r"
  using assms
  by (auto simp: FILTER_def Let_def bind_r_def split: if_splits sum.splits option.splits)

text \<open>
  C1 has a single filter other than the cached PASS id returned as a list of one name.
  On the example record, with filter \<open>q10\<close> and the PASS id 0 cached, \<open>FILTER\<close> returns
  the byte string \<open>q10\<close>.
\<close>

theorem FILTER_cached_single_name_is_bytes:
  "FILTER (newRecord ex_raw (ex_file\<lparr>PASS := 0\<rparr>))
     = Inr (FBytes ''q10'', ex_file\<lparr>PASS := 0\<rparr>)"
proof -
  let ?r = "newRecord ex_raw (ex_file\<lparr>PASS := 0\<rparr>)"
  have d: "d_flt (b_d (rec_b ?r)) = [1]" "d_n_flt (b_d (rec_b ?r)) = 1"
    by (simp_all add: unpack_defs ex_defs)
  have v: "rec_vcf ?r = ex_file\<lparr>PASS := 0\<rparr>" by (simp add: newRecord_def)
  have h: "hdr (rec_vcf ?r) = Some ex_hdr" "PASS (rec_vcf ?r) \<noteq> - 1"
    unfolding v by (simp_all add: ex_file_def)
  have n: "d_n_flt (b_d (rec_b ?r)) = int (length (d_flt (b_d (rec_b ?r))))"
    unfolding d by simp
  show ?thesis
    unfolding FILTER_cached [OF h n] d v
    by (simp add: bcf_hdr_int2id_def ex_hdr_def ex_dict_id_def)
qed

text \<open>
  C2 has the first single filter returned as the empty list when its name is \<open>PASS\<close>
  and as a list of one name otherwise. On the example file, with no PASS id cached, a
  record with the one filter \<open>PASS\<close> gets the list \<open>[PASS]\<close> (and the id is cached),
  and the example record gets the byte string \<open>q10\<close>.
\<close>

theorem FILTER_first_single_filter:
  "FILTER (newRecord (ex_raw\<lparr>b_shared_flt := [0]\<rparr>) ex_file)
     = Inr (FList [''PASS''], ex_file\<lparr>PASS := 0\<rparr>) \<and>
   FILTER (newRecord ex_raw ex_file) = Inr (FBytes ''q10'', ex_file)"
proof -
  let ?p = "newRecord (ex_raw\<lparr>b_shared_flt := [0]\<rparr>) ex_file"
  let ?q = "newRecord ex_raw ex_file"
  have p: "d_flt (b_d (rec_b ?p)) = [0]" "d_n_flt (b_d (rec_b ?p)) = 1"
    "rec_vcf ?p = ex_file"
    by (simp_all add: unpack_defs ex_raw_def ex_dec0_def)
  have q: "d_flt (b_d (rec_b ?q)) = [1]" "d_n_flt (b_d (rec_b ?q)) = 1"
    "rec_vcf ?q = ex_file"
    by (simp_all add: unpack_defs ex_raw_def ex_dec0_def)
  have h: "hdr ex_file = Some ex_hdr" "PASS ex_file = - 1" by (simp_all add: ex_file_def)
  have 1: "FILTER ?p = Inr (FList [''PASS''], ex_file\<lparr>PASS := 0\<rparr>)"
    using FILTER_uncached_single [of ?p ex_hdr 0] p h
    by (simp add: bcf_hdr_int2id_def ex_hdr_def ex_dict_id_def)
  have 2: "FILTER ?q = Inr (FBytes ''q10'', ex_file)"
    using FILTER_uncached_single [of ?q ex_hdr 1] q h
    by (simp add: bcf_hdr_int2id_def ex_hdr_def ex_dict_id_def)
  from 1 2 show ?thesis by simp
qed

end
